theory Spec2Isabelle
  imports Complex_Main "HOL-Library.AList"
begin

section \<open>Python values and exceptions\<close>

text \<open>
  The repository is a Django application written in Python. Every exception the modelled
  code can raise is a constructor of \<open>py_error\<close>, and a computation that may raise has
  the result type \<open>py_error + 'a\<close> with \<open>Inl\<close> for the exception.
  \<open>MaxedOutAttempts\<close> is \<^verbatim>\<open>Exception("Failed: Maxed out attempts")\<close>;
  \<open>ConnectionFailed\<close> stands for the exception of the HTTP client when no response
  arrives at all.
\<close>

datatype py_error =
    ZeroDivisionError
  | OverflowError
  | KeyError
  | IndexError
  | TypeError
  | ValueError
  | UnboundLocalError
  | MaxedOutAttempts
  | ConnectionFailed

definition and_then :: "py_error + 'a \<Rightarrow> ('a \<Rightarrow> py_error + 'b) \<Rightarrow> py_error + 'b" where
  "and_then r f = (case r of Inl e \<Rightarrow> Inl e | Inr v \<Rightarrow> f v)"

subsection \<open>Floats\<close>

text \<open>
  A Python float is an IEEE 754 binary64 number. A finite float is modelled by the rational
  number it denotes (signed zero is identified with zero: the two compare equal).
  \<open>binary_exponent q\<close> is, for a positive \<open>q\<close>, the \<open>e\<close> with \<open>2 ^ e \<le> q < 2 ^ (e + 1)\<close>;
  \<open>to_double\<close> rounds a rational to the nearest binary64 value, ties to even, with the
  gradual underflow of subnormal numbers; \<open>dbl_overflows\<close> holds of the rationals that
  round beyond the largest finite float.
\<close>

datatype pyfloat = Finite rat | PosInf | NegInf

datatype num = PyInt int | PyFloat pyfloat

fun bit_length :: "nat \<Rightarrow> nat" where
  "bit_length n = (if n = 0 then 0 else Suc (bit_length (n div 2)))"

declare bit_length.simps [simp del]

definition round_half_even :: "rat \<Rightarrow> int" where
  "round_half_even q =
     (let f = \<lfloor>q\<rfloor>; d = q - of_int f
      in if d < 1 / 2 then f else if 1 / 2 < d then f + 1 else if even f then f else f + 1)"

definition binary_exponent :: "rat \<Rightarrow> int" where
  "binary_exponent q =
     (if 1 \<le> q then int (bit_length (nat \<lfloor>q\<rfloor>)) - 1
      else let k = int (bit_length (nat \<lfloor>1 / q\<rfloor>)) - 1
           in if 2 powi (- k) \<le> q then - k else - k - 1)"

definition to_double :: "rat \<Rightarrow> rat" where
  "to_double q =
     (if q = 0 then 0
      else let a = \<bar>q\<bar>;
               e = max (binary_exponent a) (- 1022);
               u = 2 powi (e - 52)
           in sgn q * of_int (round_half_even (a / u)) * u)"

definition dbl_overflows :: "rat \<Rightarrow> bool" where
  "dbl_overflows q = (2 ^ 1024 - 2 ^ 970 \<le> \<bar>q\<bar>)"

text \<open>\<^verbatim>\<open>a / b\<close> on two ints (true division): correctly rounded, raising on a zero divisor
  and on a quotient too large for a float.\<close>

definition truediv :: "int \<Rightarrow> int \<Rightarrow> py_error + pyfloat" where
  "truediv a b =
     (if b = 0 then Inl ZeroDivisionError
      else if dbl_overflows (of_int a / of_int b) then Inl OverflowError
      else Inr (Finite (to_double (of_int a / of_int b))))"

text \<open>\<^verbatim>\<open>x * 100\<close> on a float: float multiplication overflows to an infinity silently.\<close>

definition times_100 :: "pyfloat \<Rightarrow> pyfloat" where
  "times_100 x =
     (case x of
        Finite r \<Rightarrow>
          if dbl_overflows (r * 100) then (if 0 < r then PosInf else NegInf)
          else Finite (to_double (r * 100))
      | PosInf \<Rightarrow> PosInf
      | NegInf \<Rightarrow> NegInf)"

text \<open>\<^verbatim>\<open>round(x, ndigits)\<close> on a float: the exact value of \<open>x\<close> is rounded to \<open>ndigits\<close>
  decimals, half to even, and the decimal is converted back to the nearest float;
  infinities round to themselves.\<close>

definition py_round :: "pyfloat \<Rightarrow> nat \<Rightarrow> pyfloat" where
  "py_round x ndigits =
     (case x of
        Finite r \<Rightarrow> Finite (to_double (of_int (round_half_even (r * 10 ^ ndigits)) / 10 ^ ndigits))
      | PosInf \<Rightarrow> PosInf
      | NegInf \<Rightarrow> NegInf)"

text \<open>\<^verbatim>\<open>int(x)\<close> on a float truncates towards zero and raises on an infinity.\<close>

definition py_int :: "pyfloat \<Rightarrow> py_error + int" where
  "py_int x =
     (case x of
        Finite r \<Rightarrow> Inr (if 0 \<le> r then \<lfloor>r\<rfloor> else \<lceil>r\<rceil>)
      | PosInf \<Rightarrow> Inl OverflowError
      | NegInf \<Rightarrow> Inl OverflowError)"

text \<open>\<^verbatim>\<open>round(a / b, 2)\<close> on two ints, the expression behind every derived rate.\<close>

definition round_div2 :: "int \<Rightarrow> int \<Rightarrow> py_error + num" where
  "round_div2 a b = and_then (truediv a b) (\<lambda>q. Inr (PyFloat (py_round q 2)))"

subsection \<open>Strings, lists and dicts\<close>

text \<open>\<^verbatim>\<open>s.split(c)\<close> for a one-character separator, \<^verbatim>\<open>sep.join(ws)\<close>, and the part of
  \<open>s\<close> after the first occurrence of \<open>sep\<close>, which is \<^verbatim>\<open>s.split(sep, 1)[1]\<close> when
  \<open>sep\<close> occurs and an \<^verbatim>\<open>IndexError\<close> when it does not.\<close>

fun split_char :: "char \<Rightarrow> string \<Rightarrow> string list" where
  "split_char c [] = [[]]"
| "split_char c (x # xs) =
     (if x = c then [] # split_char c xs
      else (case split_char c xs of [] \<Rightarrow> [[x]] | w # ws \<Rightarrow> (x # w) # ws))"

fun join :: "string \<Rightarrow> string list \<Rightarrow> string" where
  "join sep [] = []"
| "join sep [w] = w"
| "join sep (w # v # ws) = w @ sep @ join sep (v # ws)"

fun after_first :: "string \<Rightarrow> string \<Rightarrow> string option" where
  "after_first sep [] = (if sep = [] then Some [] else None)"
| "after_first sep (c # cs) =
     (if take (length sep) (c # cs) = sep then Some (drop (length sep) (c # cs))
      else after_first sep cs)"

text \<open>\<^verbatim>\<open>s.lower()\<close> on the ASCII letters, which are all a position name contains.\<close>

definition lower_char :: "char \<Rightarrow> char" where
  "lower_char c =
     (case map_of (zip ''ABCDEFGHIJKLMNOPQRSTUVWXYZ'' ''abcdefghijklmnopqrstuvwxyz'') c of
        None \<Rightarrow> c
      | Some l \<Rightarrow> l)"

definition lower :: "string \<Rightarrow> string" where
  "lower s = map lower_char s"

text \<open>Subscription \<^verbatim>\<open>xs[i]\<close> of a list: positions \<open>0 .. len - 1\<close> from the front,
  positions \<open>-1 .. -len\<close> from the back, \<^verbatim>\<open>IndexError\<close> for every other \<open>i\<close>.\<close>

definition py_index :: "'a list \<Rightarrow> int \<Rightarrow> py_error + 'a" where
  "py_index xs i =
     (if 0 \<le> i \<and> i < int (length xs) then Inr (xs ! nat i)
      else if i < 0 \<and> - int (length xs) \<le> i then Inr (xs ! nat (int (length xs) + i))
      else Inl IndexError)"

text \<open>\<^verbatim>\<open>xs[i] = v\<close> at an index known to be in range.\<close>

definition py_store :: "'a list \<Rightarrow> int \<Rightarrow> 'a \<Rightarrow> 'a list" where
  "py_store xs i v = xs[nat (if i < 0 then int (length xs) + i else i) := v]"

text \<open>A dict is an association list in insertion order: \<^verbatim>\<open>d[k]\<close> raises on a missing key,
  \<^verbatim>\<open>d[k] = v\<close> replaces the value in place or appends a new key
  (\<^const>\<open>AList.update\<close>).\<close>

definition dict_get :: "('k \<times> 'v) list \<Rightarrow> 'k \<Rightarrow> py_error + 'v" where
  "dict_get d k = (case map_of d k of None \<Rightarrow> Inl KeyError | Some v \<Rightarrow> Inr v)"

section \<open>The data model\<close>

text \<open>
  A match is the JSON document of the remote match endpoint, a dict whose keys the code
  reads by name; the keys the remote API always sends are record fields, and the keys the
  enrichment adds later (\<^verbatim>\<open>player_summary\<close>, \<^verbatim>\<open>kda\<close>, \<^verbatim>\<open>items\<close>, ...) are optional fields,
  \<open>None\<close> while the key is absent.
\<close>

record selection =
  perk :: int

record perk_style =
  style :: int
  selections :: "selection list"

record participant =
  puuid :: string
  championName :: string
  teamPosition :: string
  win :: bool
  kills :: int
  deaths :: int
  assists :: int
  totalMinionsKilled :: int
  neutralMinionsKilled :: int
  visionScore :: int
  goldEarned :: int
  totalDamageDealtToChampions :: int
  item0 :: int
  item1 :: int
  item2 :: int
  item3 :: int
  item4 :: int
  item5 :: int
  item6 :: int
  summoner1Id :: int
  summoner2Id :: int
  styles :: "perk_style list"
  kda :: "num option"
  summoner_spell_1 :: "string option"
  summoner_spell_2 :: "string option"
  rune_primary :: "string option"
  rune_secondary :: "string option"
  items :: "int list option"

record match_info =
  queueId :: int
  gameMode :: string
  gameDuration :: int
  gameCreation :: int
  gameVersion :: string
  participants :: "participant list"
  matchups :: "participant list list option"

record match_json =
  matchId :: string
  info :: match_info
  player_summary :: "participant option"
  date :: "string option"
  patch :: "string option"
  match_mode :: "string option"

text \<open>
  The persisted statistics of one player (the \<^verbatim>\<open>Summoner\<close> row): \<^verbatim>\<open>stats\<close> has the five
  keys and three sub-keys \<^verbatim>\<open>create_user_db\<close> gives it, \<^verbatim>\<open>roles\<close> and \<^verbatim>\<open>champions\<close> are
  dicts looked up by a key computed from the match.
\<close>

record stat =
  total :: int
  per_min :: num
  per_match :: num

record stats_json =
  st_kills :: stat
  st_deaths :: stat
  st_assists :: stat
  st_minions :: stat
  st_vision :: stat

record champion =
  ch_num :: int
  ch_kills :: int
  ch_assists :: int
  ch_deaths :: int
  ch_kda :: num
  ch_wins :: int
  ch_losses :: int
  ch_win_rate :: num
  ch_play_rate :: num
  ch_minions :: int
  ch_vision :: int
  ch_gold :: int
  ch_damage :: int
  ch_last_played :: string

record summoner =
  matches :: int
  minutes :: int
  stats :: stats_json
  roles :: "(string \<times> (string \<times> int) list) list"
  champions :: "(string \<times> champion) list"

text \<open>
  One HTTP response as the fetch loops read it: the status, the JSON body, and the
  \<^verbatim>\<open>Retry-After\<close> header as \<^verbatim>\<open>int(response.headers["Retry-After"])\<close> finds it (absent:
  \<^verbatim>\<open>KeyError\<close>; not a number: \<^verbatim>\<open>ValueError\<close>).
\<close>

datatype retry_header = Absent | Unparsable | Seconds int

record 'b response =
  status :: int
  retry_after :: retry_header
  body :: 'b

record perk_entry =
  perk_id :: int
  iconPath :: string

text \<open>
  What the code takes from outside itself. \<open>API_KEY\<close> is the configured key;
  \<open>session\<close> is the client session \<^verbatim>\<open>get_match_preview_list\<close> opens: a session gives, for
  a URL, the responses the remote sends to the successive requests of it (a request after
  the last one gets no response); \<open>perks_json\<close> is what
  \<^verbatim>\<open>get(url).json()\<close> returns for the perks table; \<open>fromtimestamp_date\<close> is
  \<^verbatim>\<open>str(datetime.fromtimestamp(x).date())\<close> in the time zone of the process.
  \<open>get_participant_number\<close> and \<open>get_preview_stats\<close> are the two helpers of
  \<^verbatim>\<open>api.utils.helpers\<close> that \<^verbatim>\<open>get_match_preview\<close> calls and whose source is not part of
  the files at hand: the first returns an index into the participants, the second reads
  the match and returns the player summary to use from then on.
\<close>

record env =
  API_KEY :: string
  session :: "string \<Rightarrow> match_json response list"
  perks_json :: "py_error + perk_entry list"
  fromtimestamp_date :: "pyfloat \<Rightarrow> py_error + string"
  get_participant_number :: "match_json \<Rightarrow> string \<Rightarrow> py_error + int"
  get_preview_stats :: "match_json \<Rightarrow> py_error + participant"

text \<open>The effects of a fetch that its result does not show: the durations slept, in order,
  and the number of requests made for the perks table.\<close>

record effects =
  sleeps :: "int list"
  perks_requests :: nat

section \<open>helpers.py\<close>

definition get_date_by_timestamp :: "env \<Rightarrow> int \<Rightarrow> py_error + string" where
  "get_date_by_timestamp ev match_timestamp =
     (if dbl_overflows (of_int match_timestamp) then Inl OverflowError
      else fromtimestamp_date ev
             (Finite (to_double (to_double (of_int match_timestamp) / 1000))))"

definition get_region_by_platform :: "string \<Rightarrow> py_error + string" where
  "get_region_by_platform platform =
     (if platform \<in> set [''NA1'', ''BR1'', ''LA1'', ''LA2'', ''OC1''] then Inr ''AMERICAS''
      else if platform \<in> set [''EUN1'', ''EUW1'', ''TR1'', ''RU''] then Inr ''EUROPE''
      else if platform \<in> set [''KR'', ''JP1''] then Inr ''ASIA''
      else Inl UnboundLocalError)"

definition get_match_mode :: "int \<Rightarrow> string" where
  "get_match_mode queue_id =
     (if queue_id = 400 then ''Normal Draft''
      else if queue_id = 420 then ''Ranked Solo''
      else if queue_id = 430 then ''Normal Blind''
      else ''Special'')"

definition get_summoner_spell :: "int \<Rightarrow> string" where
  "get_summoner_spell summoner_key =
     (if summoner_key = 1 then ''summoner_boost''
      else if summoner_key = 3 then ''summoner_exhaust''
      else if summoner_key = 4 then ''summoner_flash''
      else if summoner_key = 6 then ''summoner_haste''
      else if summoner_key = 7 then ''summoner_heal''
      else if summoner_key = 11 then ''summoner_smite''
      else if summoner_key = 12 then ''summoner_teleport''
      else if summoner_key = 13 then ''summonermana''
      else if summoner_key = 14 then ''summonerignite''
      else if summoner_key = 21 then ''summonerbarrier''
      else if summoner_key = 32 then ''summoner_mark''
      else ''summoner_empty'')"

text \<open>
  \<^verbatim>\<open>get_rune_primary\<close> requests the perks table, takes the first entry with the rune's id
  (\<^verbatim>\<open>None\<close> when there is none, and subscripting \<^verbatim>\<open>None\<close> is a \<^verbatim>\<open>TypeError\<close>) and
  returns what follows \<^verbatim>\<open>Styles/\<close> in its icon path. The second argument and the
  second component of the result count the requests for the table.
\<close>

definition rune_icon :: "perk_entry list \<Rightarrow> int \<Rightarrow> py_error + string" where
  "rune_icon data_json rune_id =
     (case find (\<lambda>item. perk_id item = rune_id) data_json of
        None \<Rightarrow> Inl TypeError
      | Some rune_dict \<Rightarrow>
          (case after_first ''Styles/'' (iconPath rune_dict) of
             None \<Rightarrow> Inl IndexError
           | Some path \<Rightarrow> Inr path))"

definition get_rune_primary :: "env \<Rightarrow> int \<Rightarrow> nat \<Rightarrow> (py_error + string) \<times> nat" where
  "get_rune_primary ev rune_id requests =
     (and_then (perks_json ev) (\<lambda>data_json. rune_icon data_json rune_id), Suc requests)"

definition get_rune_secondary :: "int \<Rightarrow> string" where
  "get_rune_secondary rune_id =
     (if rune_id = 8000 then ''7201_precision''
      else if rune_id = 8100 then ''7200_domination''
      else if rune_id = 8200 then ''7202_sorcery''
      else if rune_id = 8300 then ''7203_whimsy''
      else ''7204_resolve'')"

section \<open>interactions.py: one match\<close>

subsection \<open>The body of \<^verbatim>\<open>get_match_preview\<close> for a response with status 200\<close>

text \<open>The \<^verbatim>\<open>try\<close> block of the KDA: the division is attempted, and only a
  \<^verbatim>\<open>ZeroDivisionError\<close> is caught.\<close>

definition set_kda :: "participant \<Rightarrow> py_error + participant" where
  "set_kda p =
     (case truediv (kills p + assists p) (deaths p) of
        Inr q \<Rightarrow> Inr (p\<lparr>kda := Some (PyFloat (py_round q 2))\<rparr>)
      | Inl e \<Rightarrow>
          if e = ZeroDivisionError then Inr (p\<lparr>kda := Some (PyInt (kills p + assists p))\<rparr>)
          else Inl e)"

definition set_spells :: "participant \<Rightarrow> participant" where
  "set_spells p =
     p\<lparr>summoner_spell_1 := Some (get_summoner_spell (summoner1Id p)),
       summoner_spell_2 := Some (get_summoner_spell (summoner2Id p))\<rparr>"

text \<open>\<^verbatim>\<open>perks["styles"][0]["selections"][0]["perk"]\<close> and \<^verbatim>\<open>perks["styles"][1]["style"]\<close>.\<close>

definition primary_perk :: "participant \<Rightarrow> py_error + int" where
  "primary_perk p =
     and_then (py_index (styles p) 0) (\<lambda>s.
     and_then (py_index (selections s) 0) (\<lambda>sel. Inr (perk sel)))"

definition secondary_style :: "participant \<Rightarrow> py_error + int" where
  "secondary_style p = and_then (py_index (styles p) 1) (\<lambda>s. Inr (style s))"

text \<open>\<^verbatim>\<open>".".join(version.split(".")[:2]) + ".1"\<close>.\<close>

definition patch_of :: "string \<Rightarrow> string" where
  "patch_of version = join ''.'' (take 2 (split_char CHR ''.'' version)) @ ''.1''"

definition item_list :: "participant \<Rightarrow> int list" where
  "item_list p = [item0 p, item1 p, item2 p, item6 p, item3 p, item4 p, item5 p]"

fun matchup_rows :: "participant list \<Rightarrow> int list \<Rightarrow> py_error + participant list list" where
  "matchup_rows ps [] = Inr []"
| "matchup_rows ps (i # is) =
     and_then (py_index ps i) (\<lambda>a.
     and_then (py_index ps (i + 5)) (\<lambda>b.
     and_then (matchup_rows ps is) (\<lambda>rows. Inr ([a, b] # rows))))"

text \<open>
  The steps after the runes are resolved. The player summary is the participant's own dict,
  so what has been written to it so far is also seen through the participant list; from
  \<^verbatim>\<open>get_preview_stats\<close> on, the summary is what that helper returned.
\<close>

definition finish_preview :: "env \<Rightarrow> match_json \<Rightarrow> int \<Rightarrow> participant \<Rightarrow> py_error + match_json" where
  "finish_preview ev m participant_number p =
     (let m1 = m\<lparr>player_summary := Some p,
                 info := (info m)\<lparr>participants := py_store (participants (info m)) participant_number p\<rparr>\<rparr>
      in and_then (get_preview_stats ev m1) (\<lambda>ps.
         and_then (get_date_by_timestamp ev (gameCreation (info m1))) (\<lambda>match_date.
         let m2 = m1\<lparr>player_summary := Some (ps\<lparr>items := Some (item_list ps)\<rparr>),
                     date := Some match_date,
                     patch := Some (patch_of (gameVersion (info m1))),
                     match_mode :=
                       Some (if gameMode (info m1) = ''CLASSIC''
                             then get_match_mode (queueId (info m1))
                             else gameMode (info m1))\<rparr>
         in and_then (matchup_rows (participants (info m2)) [0, 1, 2, 3, 4]) (\<lambda>rows.
            Inr (m2\<lparr>info := (info m2)\<lparr>matchups := Some rows\<rparr>\<rparr>)))))"

text \<open>The player is located and annotated up to the id of the primary rune; the request for
  the perks table follows; then the rest. A match of a queue in \<open>{0, 2000, 2010, 2020}\<close>
  skips all of it and is returned as it came.\<close>

definition annotate_player :: "env \<Rightarrow> string \<Rightarrow> match_json \<Rightarrow> py_error + int \<times> participant \<times> int" where
  "annotate_player ev puuid' m =
     and_then (get_participant_number ev m puuid') (\<lambda>participant_number.
     and_then (py_index (participants (info m)) participant_number) (\<lambda>p.
     and_then (set_kda p) (\<lambda>p.
     and_then (primary_perk (set_spells p)) (\<lambda>rune_id.
     Inr (participant_number, set_spells p, rune_id)))))"

definition match_preview :: "env \<Rightarrow> string \<Rightarrow> match_json \<Rightarrow> nat \<Rightarrow> (py_error + match_json) \<times> nat" where
  "match_preview ev puuid' m requests =
     (if queueId (info m) \<in> {0, 2000, 2010, 2020} then (Inr m, requests)
      else
        (case annotate_player ev puuid' m of
           Inl e \<Rightarrow> (Inl e, requests)
         | Inr (participant_number, p, rune_id) \<Rightarrow>
             (case get_rune_primary ev rune_id requests of
                (Inl e, requests') \<Rightarrow> (Inl e, requests')
              | (Inr primary, requests') \<Rightarrow>
                  (and_then (secondary_style p) (\<lambda>style_id.
                     finish_preview ev m participant_number
                       (p\<lparr>rune_primary := Some primary,
                          rune_secondary := Some (get_rune_secondary style_id)\<rparr>)),
                   requests'))))"

subsection \<open>The retry loops\<close>

definition max_attempts :: nat where
  "max_attempts = 3"

text \<open>
  \<^verbatim>\<open>get_match_preview\<close>: the loop runs while \<open>attempts < max_attempts\<close>; each turn makes
  one request. Status 200 returns from inside the loop; status 429 sleeps for the
  \<^verbatim>\<open>Retry-After\<close> seconds; every status other than 200 counts an attempt. The statement
  after the loop raises.
\<close>

fun get_match_preview_loop ::
  "env \<Rightarrow> string \<Rightarrow> nat \<Rightarrow> match_json response list \<Rightarrow> effects \<Rightarrow> (py_error + match_json) \<times> effects"
where
  "get_match_preview_loop ev puuid' attempts [] eff =
     (if attempts < max_attempts then (Inl ConnectionFailed, eff)
      else (Inl MaxedOutAttempts, eff))"
| "get_match_preview_loop ev puuid' attempts (r # rs) eff =
     (if attempts < max_attempts then
        if status r = 200 then
          (case match_preview ev puuid' (body r) (perks_requests eff) of
             (res, requests) \<Rightarrow> (res, eff\<lparr>perks_requests := requests\<rparr>))
        else if status r = 429 then
          (case retry_after r of
             Absent \<Rightarrow> (Inl KeyError, eff)
           | Unparsable \<Rightarrow> (Inl ValueError, eff)
           | Seconds n \<Rightarrow>
               get_match_preview_loop ev puuid' (attempts + 1) rs (eff\<lparr>sleeps := sleeps eff @ [n]\<rparr>))
        else get_match_preview_loop ev puuid' (attempts + 1) rs eff
      else (Inl MaxedOutAttempts, eff))"

definition get_match_preview ::
  "env \<Rightarrow> (string \<Rightarrow> match_json response list) \<Rightarrow> string \<Rightarrow> string \<Rightarrow> (py_error + match_json) \<times> effects"
where
  "get_match_preview ev sess url puuid' =
     get_match_preview_loop ev puuid' 0 (sess url) \<lparr>sleeps = [], perks_requests = 0\<rparr>"

text \<open>\<^verbatim>\<open>get_leagues_json\<close>: the same loop, returning the body of a 200 response as it is.
  The second component of the result is the list of the durations slept.\<close>

fun get_leagues_json_loop ::
  "nat \<Rightarrow> 'b response list \<Rightarrow> int list \<Rightarrow> (py_error + 'b) \<times> int list"
where
  "get_leagues_json_loop attempts [] slept =
     (if attempts < max_attempts then (Inl ConnectionFailed, slept)
      else (Inl MaxedOutAttempts, slept))"
| "get_leagues_json_loop attempts (r # rs) slept =
     (if attempts < max_attempts then
        if status r = 200 then (Inr (body r), slept)
        else if status r = 429 then
          (case retry_after r of
             Absent \<Rightarrow> (Inl KeyError, slept)
           | Unparsable \<Rightarrow> (Inl ValueError, slept)
           | Seconds n \<Rightarrow> get_leagues_json_loop (attempts + 1) rs (slept @ [n]))
        else get_leagues_json_loop (attempts + 1) rs slept
      else (Inl MaxedOutAttempts, slept))"

definition get_leagues_json :: "(string \<Rightarrow> 'b response list) \<Rightarrow> string \<Rightarrow> (py_error + 'b) \<times> int list" where
  "get_leagues_json sess url = get_leagues_json_loop 0 (sess url) []"

section \<open>interactions.py: the aggregate statistics\<close>

subsection \<open>\<^verbatim>\<open>add_database_ranked_stats\<close>\<close>

text \<open>
  The three statements the function repeats for each of the five stats: the match's value
  is added to \<^verbatim>\<open>total\<close>, then \<^verbatim>\<open>per_min\<close> and \<^verbatim>\<open>per_match\<close> are assigned
  \<^verbatim>\<open>round(total / minutes, 2)\<close> and \<^verbatim>\<open>round(total / matches, 2)\<close>.
\<close>

definition update_stat :: "stat \<Rightarrow> int \<Rightarrow> int \<Rightarrow> int \<Rightarrow> py_error + stat" where
  "update_stat s v mins n =
     and_then (round_div2 (total s + v) mins) (\<lambda>pm.
     and_then (round_div2 (total s + v) n) (\<lambda>pn.
     Inr (s\<lparr>total := total s + v, per_min := pm, per_match := pn\<rparr>)))"

text \<open>\<^verbatim>\<open>int(round(gameDuration / 60, 0))\<close>.\<close>

definition duration_minutes :: "match_json \<Rightarrow> py_error + int" where
  "duration_minutes m =
     and_then (truediv (gameDuration (info m)) 60) (\<lambda>q. py_int (py_round q 0))"

definition minions_of :: "participant \<Rightarrow> int" where
  "minions_of player_json = totalMinionsKilled player_json + neutralMinionsKilled player_json"

definition add_database_ranked_stats :: "summoner \<Rightarrow> match_json \<Rightarrow> participant \<Rightarrow> py_error + summoner" where
  "add_database_ranked_stats summoner_db m player_json =
     and_then (duration_minutes m) (\<lambda>dm.
     let n = matches summoner_db + 1;
         mins = minutes summoner_db + dm;
         st = stats summoner_db
     in and_then (update_stat (st_kills st) (kills player_json) mins n) (\<lambda>k.
        and_then (update_stat (st_assists st) (assists player_json) mins n) (\<lambda>a.
        and_then (update_stat (st_deaths st) (deaths player_json) mins n) (\<lambda>d.
        and_then (update_stat (st_minions st) (minions_of player_json) mins n) (\<lambda>mi.
        and_then (update_stat (st_vision st) (visionScore player_json) mins n) (\<lambda>v.
        Inr (summoner_db\<lparr>matches := n, minutes := mins,
               stats := \<lparr>st_kills = k, st_deaths = d, st_assists = a,
                         st_minions = mi, st_vision = v\<rparr>\<rparr>)))))))"

subsection \<open>\<^verbatim>\<open>add_database_champion_stats\<close>\<close>

text \<open>\<^verbatim>\<open>round((kills + assists) / deaths, 2) if deaths != 0 else kills + assists\<close>, which the
  function writes once as a conditional expression and once as an \<^verbatim>\<open>if\<close> statement.\<close>

definition kda_value :: "int \<Rightarrow> int \<Rightarrow> int \<Rightarrow> py_error + num" where
  "kda_value k a d = (if d \<noteq> 0 then round_div2 (k + a) d else Inr (PyInt (k + a)))"

text \<open>The dict of a champion seen for the first time, its entries evaluated in the order
  they are written.\<close>

definition new_champion :: "env \<Rightarrow> summoner \<Rightarrow> match_json \<Rightarrow> participant \<Rightarrow> py_error + champion" where
  "new_champion ev summoner_db m player_json =
     and_then (kda_value (kills player_json) (assists player_json) (deaths player_json)) (\<lambda>kda_v.
     and_then (truediv 1 (matches summoner_db)) (\<lambda>play_rate.
     and_then (get_date_by_timestamp ev (gameCreation (info m))) (\<lambda>last_played.
     Inr \<lparr>ch_num = 1,
          ch_kills = kills player_json,
          ch_assists = assists player_json,
          ch_deaths = deaths player_json,
          ch_kda = kda_v,
          ch_wins = (if win player_json then 1 else 0),
          ch_losses = (if \<not> win player_json then 1 else 0),
          ch_win_rate = PyInt (if win player_json then 100 else 0),
          ch_play_rate = PyFloat play_rate,
          ch_minions = minions_of player_json,
          ch_vision = visionScore player_json,
          ch_gold = goldEarned player_json,
          ch_damage = totalDamageDealtToChampions player_json,
          ch_last_played = last_played\<rparr>)))"

text \<open>The statements of the \<^verbatim>\<open>else\<close> branch, on the dict of a champion seen before.\<close>

definition update_champion ::
  "env \<Rightarrow> summoner \<Rightarrow> match_json \<Rightarrow> participant \<Rightarrow> champion \<Rightarrow> py_error + champion"
where
  "update_champion ev summoner_db m player_json champion_data =
     (let c1 = champion_data\<lparr>ch_num := ch_num champion_data + 1,
                             ch_kills := ch_kills champion_data + kills player_json,
                             ch_assists := ch_assists champion_data + assists player_json,
                             ch_deaths := ch_deaths champion_data + deaths player_json\<rparr>
      in and_then (kda_value (ch_kills c1) (ch_assists c1) (ch_deaths c1)) (\<lambda>kda_v.
         let c2 = (if win player_json
                   then c1\<lparr>ch_kda := kda_v, ch_wins := ch_wins c1 + 1\<rparr>
                   else c1\<lparr>ch_kda := kda_v, ch_losses := ch_losses c1 + 1\<rparr>)
         in and_then (truediv (ch_wins c2) (ch_num c2)) (\<lambda>q.
            and_then (round_div2 (ch_num c2) (matches summoner_db)) (\<lambda>play_rate.
            and_then (get_date_by_timestamp ev (gameCreation (info m))) (\<lambda>last_played.
            Inr (c2\<lparr>ch_win_rate := PyFloat (py_round (times_100 q) 2),
                    ch_play_rate := play_rate,
                    ch_minions := ch_minions c2 + minions_of player_json,
                    ch_vision := ch_vision c2 + visionScore player_json,
                    ch_gold := ch_gold c2 + goldEarned player_json,
                    ch_damage := ch_damage c2 + totalDamageDealtToChampions player_json,
                    ch_last_played := last_played\<rparr>))))))"

definition add_database_champion_stats ::
  "env \<Rightarrow> summoner \<Rightarrow> match_json \<Rightarrow> participant \<Rightarrow> py_error + summoner"
where
  "add_database_champion_stats ev summoner_db m player_json =
     (case map_of (champions summoner_db) (championName player_json) of
        None \<Rightarrow>
          and_then (new_champion ev summoner_db m player_json) (\<lambda>c.
          Inr (summoner_db\<lparr>champions :=
                 AList.update (championName player_json) c (champions summoner_db)\<rparr>))
      | Some champion_data \<Rightarrow>
          and_then (update_champion ev summoner_db m player_json champion_data) (\<lambda>c.
          Inr (summoner_db\<lparr>champions :=
                 AList.update (championName player_json) c (champions summoner_db)\<rparr>)))"

section \<open>interactions.py: \<^verbatim>\<open>get_match_preview_list\<close>\<close>

subsection \<open>The loop over the previews\<close>

text \<open>\<^verbatim>\<open>roles[position][key] += 1\<close> and
  \<^verbatim>\<open>roles[position]["win_rate"] = int(roles[position]["wins"] / roles[position]["num"] * 100)\<close>.\<close>

definition role_add1 ::
  "(string \<times> (string \<times> int) list) list \<Rightarrow> string \<Rightarrow> string
     \<Rightarrow> py_error + (string \<times> (string \<times> int) list) list"
where
  "role_add1 rs position key =
     and_then (dict_get rs position) (\<lambda>bucket.
     and_then (dict_get bucket key) (\<lambda>v.
     Inr (AList.update position (AList.update key (v + 1) bucket) rs)))"

definition role_win_rate ::
  "(string \<times> (string \<times> int) list) list \<Rightarrow> string
     \<Rightarrow> py_error + (string \<times> (string \<times> int) list) list"
where
  "role_win_rate rs position =
     and_then (dict_get rs position) (\<lambda>bucket.
     and_then (dict_get bucket ''wins'') (\<lambda>w.
     and_then (dict_get bucket ''num'') (\<lambda>n.
     and_then (truediv w n) (\<lambda>q.
     and_then (py_int (times_100 q)) (\<lambda>rate.
     Inr (AList.update position (AList.update ''win_rate'' rate bucket) rs))))))"

text \<open>One turn of the loop: the position is read from the player summary of every preview
  (a preview without one raises \<^verbatim>\<open>KeyError\<close>); only a \<^verbatim>\<open>CLASSIC\<close> match with a
  non-empty position is folded into the statistics.\<close>

definition fold_match :: "env \<Rightarrow> summoner \<Rightarrow> match_json \<Rightarrow> py_error + summoner" where
  "fold_match ev summoner_db m =
     (case player_summary m of
        None \<Rightarrow> Inl KeyError
      | Some ps \<Rightarrow>
          (let position_dict = lower (teamPosition ps)
           in if gameMode (info m) = ''CLASSIC'' \<and> position_dict \<noteq> [] then
                and_then (role_add1 (roles summoner_db) position_dict ''num'') (\<lambda>r1.
                and_then (role_add1 r1 position_dict (if win ps then ''wins'' else ''losses'')) (\<lambda>r2.
                and_then (role_win_rate r2 position_dict) (\<lambda>r3.
                and_then (add_database_ranked_stats (summoner_db\<lparr>roles := r3\<rparr>) m ps) (\<lambda>db1.
                add_database_champion_stats ev db1 m ps))))
              else Inr summoner_db))"

fun fold_matches :: "env \<Rightarrow> summoner \<Rightarrow> match_json list \<Rightarrow> py_error + summoner" where
  "fold_matches ev summoner_db [] = Inr summoner_db"
| "fold_matches ev summoner_db (m # ms) =
     and_then (fold_match ev summoner_db m) (\<lambda>db1. fold_matches ev db1 ms)"

subsection \<open>The fan-out and the whole function\<close>

text \<open>
  \<^verbatim>\<open>gather(*tasks)\<close> without \<^verbatim>\<open>return_exceptions\<close>: the results in the order of the
  tasks when every task returns; when a task raises, the exception is raised to the
  caller and no result is returned. (With several failing tasks asyncio raises the one
  that fails first in time; the model takes the first in the order of the tasks.)
\<close>

fun gather :: "(py_error + 'a) list \<Rightarrow> py_error + 'a list" where
  "gather [] = Inr []"
| "gather (t # ts) =
     (case t of
        Inl e \<Rightarrow> Inl e
      | Inr v \<Rightarrow> (case gather ts of Inl e \<Rightarrow> Inl e | Inr vs \<Rightarrow> Inr (v # vs)))"

definition match_url :: "env \<Rightarrow> string \<Rightarrow> string \<Rightarrow> string" where
  "match_url ev region match_id =
     ''https://'' @ region @ ''.api.riotgames.com/lol/match/v5/matches/'' @ match_id
       @ ''?api_key='' @ API_KEY ev"

definition platform_of :: "string \<Rightarrow> string" where
  "platform_of match_id = (case split_char CHR ''_'' match_id of [] \<Rightarrow> [] | w # ws \<Rightarrow> w)"

text \<open>
  \<^verbatim>\<open>get_match_preview_list(matches, summoner_db, puuid)\<close>. The local variable
  \<^verbatim>\<open>match_preview_list\<close> is assigned only inside \<^verbatim>\<open>if matches:\<close>, and the
  \<^verbatim>\<open>return\<close> statement after the \<^verbatim>\<open>if\<close> reads it.
\<close>

definition get_match_preview_list ::
  "env \<Rightarrow> string list \<Rightarrow> summoner \<Rightarrow> string \<Rightarrow> py_error + summoner \<times> match_json list"
where
  "get_match_preview_list ev match_ids summoner_db puuid' =
     (case match_ids of
        [] \<Rightarrow> Inl UnboundLocalError
      | first # others \<Rightarrow>
          and_then (get_region_by_platform (platform_of first)) (\<lambda>region.
          and_then (gather (map (\<lambda>match_id.
                        fst (get_match_preview ev (session ev) (match_url ev region match_id) puuid'))
                      match_ids)) (\<lambda>match_preview_list.
          and_then (fold_matches ev summoner_db match_preview_list) (\<lambda>db1.
          Inr (db1, match_preview_list)))))"

section \<open>Properties of the statistics, as predicates\<close>



text \<open>The player summaries of the previews that the loop of \<^verbatim>\<open>get_match_preview_list\<close>
  folds: those of a \<^verbatim>\<open>CLASSIC\<close> match with a non-empty position.\<close>

definition folded_player :: "match_json \<Rightarrow> participant option" where
  "folded_player m =
     (case player_summary m of
        None \<Rightarrow> None
      | Some ps \<Rightarrow>
          if gameMode (info m) = ''CLASSIC'' \<and> lower (teamPosition ps) \<noteq> [] then Some ps
          else None)"

definition folded_players :: "match_json list \<Rightarrow> participant list" where
  "folded_players ms = List.map_filter folded_player ms"

text \<open>A response that reports the rate limit and names the seconds to wait.\<close>

definition rate_limit_response :: "'b response \<Rightarrow> int \<Rightarrow> bool" where
  "rate_limit_response r n = (status r = 429 \<and> retry_after r = Seconds n)"

section \<open>Example data\<close>

definition ex_player :: participant where
  "ex_player =
     \<lparr>puuid = ''player-1'', championName = ''Garen'', teamPosition = ''TOP'', win = True,
      kills = 6, deaths = 2, assists = 9,
      totalMinionsKilled = 170, neutralMinionsKilled = 10, visionScore = 15,
      goldEarned = 12000, totalDamageDealtToChampions = 20000,
      item0 = 10, item1 = 11, item2 = 12, item3 = 13, item4 = 14, item5 = 15, item6 = 16,
      summoner1Id = 4, summoner2Id = 12,
      styles = [\<lparr>style = 8000, selections = [\<lparr>perk = 8010\<rparr>]\<rparr>,
                \<lparr>style = 8400, selections = []\<rparr>],
      kda = None, summoner_spell_1 = None, summoner_spell_2 = None,
      rune_primary = None, rune_secondary = None, items = None\<rparr>"

definition ex_other :: participant where
  "ex_other = ex_player\<lparr>puuid := ''player-2'', championName := ''Ahri'',
                         teamPosition := ''MIDDLE'', win := False\<rparr>"

definition ex_match :: match_json where
  "ex_match =
     \<lparr>matchId = ''EUW1_1'',
      info = \<lparr>queueId = 420, gameMode = ''CLASSIC'', gameDuration = 1800,
               gameCreation = 1637712000000, gameVersion = ''11.23.409.111'',
               participants = [ex_player, ex_other, ex_other, ex_other, ex_other,
                               ex_other, ex_other, ex_other, ex_other, ex_other],
               matchups = None\<rparr>,
      player_summary = None, date = None, patch = None, match_mode = None\<rparr>"

text \<open>An older match lost on the same champion, a match of another game mode, and a
  custom match (queue 0).\<close>

definition ex_match_older :: match_json where
  "ex_match_older =
     ex_match\<lparr>matchId := ''EUW1_2'',
              info := (info ex_match)\<lparr>gameCreation := 1637625600000,
                        participants := (participants (info ex_match))[0 := ex_player\<lparr>win := False\<rparr>]\<rparr>\<rparr>"

definition ex_match_aram :: match_json where
  "ex_match_aram =
     ex_match\<lparr>matchId := ''EUW1_3'',
              info := (info ex_match)\<lparr>queueId := 450, gameMode := ''ARAM''\<rparr>\<rparr>"

definition ex_match_custom :: match_json where
  "ex_match_custom =
     ex_match\<lparr>matchId := ''EUW1_4'', info := (info ex_match)\<lparr>queueId := 0\<rparr>\<rparr>"

text \<open>A tutorial match (queue 2000), as the remote sends it and as \<^verbatim>\<open>get_match_preview\<close>
  returns it: without a player summary.\<close>

definition ex_match_tutorial :: match_json where
  "ex_match_tutorial =
     ex_match\<lparr>matchId := ''EUW1_6'',
              info := (info ex_match)\<lparr>queueId := 2000, gameMode := ''TUTORIAL_MODULE_1''\<rparr>\<rparr>"

fun ex_participant_number :: "participant list \<Rightarrow> string \<Rightarrow> py_error + int" where
  "ex_participant_number [] puuid' = Inl ValueError"
| "ex_participant_number (p # ps) puuid' =
     (if puuid p = puuid' then Inr 0
      else and_then (ex_participant_number ps puuid') (\<lambda>i. Inr (i + 1)))"

definition ok :: "match_json \<Rightarrow> match_json response" where
  "ok m = \<lparr>status = 200, retry_after = Absent, body = m\<rparr>"

definition rate_limited :: "int \<Rightarrow> match_json response" where
  "rate_limited n = \<lparr>status = 429, retry_after = Seconds n, body = ex_match\<rparr>"

text \<open>An environment: the remote answers the first match at once, the second after two
  rate-limit responses, the third and the fourth at once, and the fifth with rate-limit
  responses only.\<close>

definition ex_session :: "string \<Rightarrow> match_json response list" where
  "ex_session url =
     (if url = ''https://EUROPE.api.riotgames.com/lol/match/v5/matches/EUW1_1?api_key=KEY''
      then [ok ex_match]
      else if url = ''https://EUROPE.api.riotgames.com/lol/match/v5/matches/EUW1_2?api_key=KEY''
      then [rate_limited 1, rate_limited 1, ok ex_match_older]
      else if url = ''https://EUROPE.api.riotgames.com/lol/match/v5/matches/EUW1_3?api_key=KEY''
      then [ok ex_match_aram]
      else if url = ''https://EUROPE.api.riotgames.com/lol/match/v5/matches/EUW1_4?api_key=KEY''
      then [ok ex_match_custom]
      else if url = ''https://EUROPE.api.riotgames.com/lol/match/v5/matches/EUW1_5?api_key=KEY''
      then [rate_limited 1, rate_limited 1, rate_limited 1, ok ex_match]
      else [])"

definition ex_env :: env where
  "ex_env =
     \<lparr>API_KEY = ''KEY'',
      session = ex_session,
      perks_json =
        Inr [\<lparr>perk_id = 8010,
              iconPath = ''/lol-game-data/assets/v1/perk-images/Styles/Precision/Conqueror/Conqueror.png''\<rparr>],
      fromtimestamp_date =
        (\<lambda>x. if x = Finite 1637712000 then Inr ''2021-11-24''
             else if x = Finite 1637625600 then Inr ''2021-11-23''
             else Inl ValueError),
      get_participant_number = (\<lambda>m puuid'. ex_participant_number (participants (info m)) puuid'),
      get_preview_stats =
        (\<lambda>m. case player_summary m of None \<Rightarrow> Inl KeyError | Some ps \<Rightarrow> Inr ps)\<rparr>"

definition ex_stat :: stat where
  "ex_stat = \<lparr>total = 0, per_min = PyInt 0, per_match = PyInt 0\<rparr>"

definition ex_role :: "(string \<times> int) list" where
  "ex_role = [(''num'', 0), (''win_rate'', 0), (''wins'', 0), (''losses'', 0)]"

definition ex_db :: summoner where
  "ex_db =
     \<lparr>matches = 0, minutes = 0,
      stats = \<lparr>st_kills = ex_stat, st_deaths = ex_stat, st_assists = ex_stat,
                st_minions = ex_stat, st_vision = ex_stat\<rparr>,
      roles = [(''top'', ex_role), (''jungle'', ex_role), (''middle'', ex_role),
               (''bottom'', ex_role), (''utility'', ex_role)],
      champions = []\<rparr>"

text \<open>What the enrichment makes of the example matches: the player summary with the KDA
  \<open>(6 + 9) / 2\<close>, the spells and the runes, and the previews.\<close>

definition ex_summary :: participant where
  "ex_summary =
     ex_player\<lparr>kda := Some (PyFloat (Finite (15 / 2))),
               summoner_spell_1 := Some ''summoner_flash'',
               summoner_spell_2 := Some ''summoner_teleport'',
               rune_primary := Some ''Precision/Conqueror/Conqueror.png'',
               rune_secondary := Some ''7204_resolve''\<rparr>"

definition ex_preview_of :: "match_json \<Rightarrow> participant \<Rightarrow> string \<Rightarrow> string \<Rightarrow> match_json" where
  "ex_preview_of m ps match_date mode =
     m\<lparr>info := (info m)
          \<lparr>participants := (participants (info m))[0 := ps],
           matchups := Some [[ps, ex_other], [ex_other, ex_other], [ex_other, ex_other],
                             [ex_other, ex_other], [ex_other, ex_other]]\<rparr>,
       player_summary := Some (ps\<lparr>items := Some [10, 11, 12, 16, 13, 14, 15]\<rparr>),
       date := Some match_date, patch := Some ''11.23.1'', match_mode := Some mode\<rparr>"

definition ex_preview :: match_json where
  "ex_preview = ex_preview_of ex_match ex_summary ''2021-11-24'' ''Ranked Solo''"

definition ex_preview_older :: match_json where
  "ex_preview_older =
     ex_preview_of ex_match_older (ex_summary\<lparr>win := False\<rparr>) ''2021-11-23'' ''Ranked Solo''"

definition ex_preview_aram :: match_json where
  "ex_preview_aram = ex_preview_of ex_match_aram ex_summary ''2021-11-24'' ''ARAM''"

text \<open>A remade match: the player has no position.\<close>

definition ex_preview_remake :: match_json where
  "ex_preview_remake =
     ex_preview\<lparr>player_summary :=
                  Some (ex_summary\<lparr>teamPosition := [], items := Some [10, 11, 12, 16, 13, 14, 15]\<rparr>)\<rparr>"

text \<open>The statistics after the first example match is folded into \<open>ex_db\<close>, and after the
  older match, a loss on the same champion, is folded next. \<open>to_double (1 / 5)\<close> is the
  float written \<^verbatim>\<open>0.2\<close>.\<close>

definition ex_champion1 :: champion where
  "ex_champion1 =
     \<lparr>ch_num = 1, ch_kills = 6, ch_assists = 9, ch_deaths = 2,
      ch_kda = PyFloat (Finite (15 / 2)), ch_wins = 1, ch_losses = 0,
      ch_win_rate = PyInt 100, ch_play_rate = PyFloat (Finite 1),
      ch_minions = 180, ch_vision = 15, ch_gold = 12000, ch_damage = 20000,
      ch_last_played = ''2021-11-24''\<rparr>"


definition ex_stats_after :: "int \<Rightarrow> stats_json" where
  "ex_stats_after n =
     \<lparr>st_kills = \<lparr>total = 6 * n, per_min = PyFloat (Finite (to_double (1 / 5))),
                   per_match = PyFloat (Finite 6)\<rparr>,
      st_deaths = \<lparr>total = 2 * n, per_min = PyFloat (Finite (to_double (7 / 100))),
                    per_match = PyFloat (Finite 2)\<rparr>,
      st_assists = \<lparr>total = 9 * n, per_min = PyFloat (Finite (to_double (3 / 10))),
                     per_match = PyFloat (Finite 9)\<rparr>,
      st_minions = \<lparr>total = 180 * n, per_min = PyFloat (Finite 6),
                     per_match = PyFloat (Finite 180)\<rparr>,
      st_vision = \<lparr>total = 15 * n, per_min = PyFloat (Finite (1 / 2)),
                    per_match = PyFloat (Finite 15)\<rparr>\<rparr>"

definition ex_db1 :: summoner where
  "ex_db1 =
     \<lparr>matches = 1, minutes = 30, stats = ex_stats_after 1,
      roles = [(''top'', [(''num'', 1), (''win_rate'', 100), (''wins'', 1), (''losses'', 0)]),
               (''jungle'', ex_role), (''middle'', ex_role), (''bottom'', ex_role),
               (''utility'', ex_role)],
      champions = [(''Garen'', ex_champion1)]\<rparr>"


section \<open>Basic facts\<close>

lemma and_then_Inl [simp]: "and_then (Inl e) f = Inl e"
  by (simp add: and_then_def)

lemma and_then_Inr [simp]: "and_then (Inr v) f = f v"
  by (simp add: and_then_def)

lemma and_then_eq_Inr: "and_then r f = Inr y \<longleftrightarrow> (\<exists>v. r = Inr v \<and> f v = Inr y)"
  by (cases r) simp_all

text \<open>Rules that let the simplifier evaluate the float operations on numerals.\<close>

lemma bit_length_0 [simp]: "bit_length 0 = 0"
  by (simp add: bit_length.simps)

lemma bit_length_1 [simp]: "bit_length 1 = 1" "bit_length (Suc 0) = 1"
  by (simp_all add: bit_length.simps)

lemma bit_length_numeral [simp]:
  "bit_length (numeral k) = Suc (bit_length (numeral k div 2))"
  by (subst bit_length.simps) simp

lemma floor_rat_numeral_div [simp]:
  "\<lfloor>numeral a / numeral b :: rat\<rfloor> = numeral a div numeral b"
  using floor_divide_of_int_eq[of "numeral a" "numeral b", where ?'a = rat] by simp

lemmas float_defs = to_double_def binary_exponent_def round_half_even_def
  dbl_overflows_def truediv_def times_100_def py_round_def py_int_def round_div2_def Let_def

section \<open>The resolvers\<close>

lemma get_rune_primary_requests: "snd (get_rune_primary ev rune_id n) = Suc n"
  by (simp add: get_rune_primary_def)

lemma get_rune_primary_example:
  "get_rune_primary ex_env 8010 0 = (Inr ''Precision/Conqueror/Conqueror.png'', 1)"
  by (simp add: get_rune_primary_def rune_icon_def ex_env_def)

text \<open>
  Claim C7, as the code has it: \<^verbatim>\<open>get_rune_primary\<close> requests the perks table on every
  call and keeps nothing between calls, so a sequence of calls makes as many requests as
  it has calls.
\<close>

theorem rune_primary_fetches_every_call:
  "fold (\<lambda>rune_id n. snd (get_rune_primary ev rune_id n)) rune_ids n = n + length rune_ids"
  by (induction rune_ids arbitrary: n) (simp_all add: get_rune_primary_requests)

text \<open>Claim C7 as stated (at most one request for the perks table in total) fails at two
  calls for the same rune: the second call requests the table again.\<close>

theorem rune_primary_two_fetches:
  "\<not> snd (get_rune_primary ex_env 8010 (snd (get_rune_primary ex_env 8010 0))) \<le> 1"
  by (simp add: get_rune_primary_def)

text \<open>The resolvers written with a default case return a label for every code.\<close>

lemma get_summoner_spell_unknown:
  "summoner_key \<notin> {1, 3, 4, 6, 7, 11, 12, 13, 14, 21, 32}
   \<Longrightarrow> get_summoner_spell summoner_key = ''summoner_empty''"
  by (simp add: get_summoner_spell_def)

lemma get_rune_secondary_unknown:
  "rune_id \<notin> {8000, 8100, 8200, 8300} \<Longrightarrow> get_rune_secondary rune_id = ''7204_resolve''"
  by (simp add: get_rune_secondary_def)

lemma get_match_mode_unknown:
  "queue_id \<notin> {400, 420, 430} \<Longrightarrow> get_match_mode queue_id = ''Special''"
  by (simp add: get_match_mode_def)

text \<open>
  Claim C8 (every resolver returns a value for every input and never raises): the code
  does not do this. \<^verbatim>\<open>get_region_by_platform\<close> has no branch for a platform outside its
  three tuples and returns a variable it never assigned; \<^verbatim>\<open>get_rune_primary\<close> subscripts
  \<^verbatim>\<open>None\<close> for a rune id the perks table does not have.
\<close>

theorem resolvers_raise_on_unknown_codes:
  "get_region_by_platform ''PH2'' = Inl UnboundLocalError
   \<and> fst (get_rune_primary ex_env 9999 0) = Inl TypeError"
  by (simp add: get_region_by_platform_def get_rune_primary_def rune_icon_def ex_env_def)

section \<open>\<^verbatim>\<open>get_match_preview_list\<close> on an empty list\<close>

text \<open>
  Claim C10: called with an empty list of match ids, \<^verbatim>\<open>get_match_preview_list\<close> does not
  return the statistics with an empty preview list; it raises \<^verbatim>\<open>UnboundLocalError\<close>,
  whatever the statistics and the player.
\<close>

theorem empty_match_list_unbound:
  "get_match_preview_list ev [] summoner_db puuid' = Inl UnboundLocalError"
  by (simp add: get_match_preview_list_def)

section \<open>The aggregate statistics: how a fold changes them\<close>









lemma folded_players_Nil [simp]: "folded_players [] = []"
  by (simp add: folded_players_def List.map_filter_simps)




section \<open>The match preview and the retry loops\<close>


lemma matchup_rows_length: "matchup_rows ps idx = Inr rows \<Longrightarrow> length rows = length idx"
  by (induction idx arbitrary: rows) (auto simp: and_then_eq_Inr)


lemma item_list_items [simp]: "item_list (ps\<lparr>items := x\<rparr>) = item_list ps"
  by (simp add: item_list_def)




lemma loop_429:
  "attempts < max_attempts \<Longrightarrow> status r = 429 \<Longrightarrow> retry_after r = Seconds n
   \<Longrightarrow> get_match_preview_loop ev p attempts (r # rs) eff
       = get_match_preview_loop ev p (attempts + 1) rs (eff\<lparr>sleeps := sleeps eff @ [n]\<rparr>)"
  by simp

lemma leagues_loop_429:
  "attempts < max_attempts \<Longrightarrow> status r = 429 \<Longrightarrow> retry_after r = Seconds n
   \<Longrightarrow> get_leagues_json_loop attempts (r # rs) slept
       = get_leagues_json_loop (attempts + 1) rs (slept @ [n])"
  by simp

lemma loop_bound:
  "get_match_preview_loop ev p a rs eff
     = get_match_preview_loop ev p a (take (max_attempts - a) rs) eff"
proof (induction rs arbitrary: a eff)
  case Nil
  then show ?case by simp
next
  case (Cons r rs)
  show ?case
  proof (cases "a < max_attempts")
    case False
    then show ?thesis by simp
  next
    case True
    then obtain k where k: "max_attempts - a = Suc k" "max_attempts - (a + 1) = k"
      by (cases "max_attempts - a") auto
    show ?thesis
      using True Cons.IH[of "a + 1"] k
      by (simp split: retry_header.splits)
  qed
qed

lemma leagues_loop_bound:
  "get_leagues_json_loop a rs slept = get_leagues_json_loop a (take (max_attempts - a) rs) slept"
proof (induction rs arbitrary: a slept)
  case Nil
  then show ?case by simp
next
  case (Cons r rs)
  show ?case
  proof (cases "a < max_attempts")
    case False
    then show ?thesis by simp
  next
    case True
    then obtain k where k: "max_attempts - a = Suc k" "max_attempts - (a + 1) = k"
      by (cases "max_attempts - a") auto
    show ?thesis
      using True Cons.IH[of "a + 1"] k
      by (simp split: retry_header.splits)
  qed
qed

lemma gather_Inl: "Inl e \<in> set ts \<Longrightarrow> \<exists>e'. gather ts = Inl e'"
  by (induction ts) (auto split: sum.splits)

lemma batch_fails:
  assumes "match_id \<in> set (first # others)"
    and "get_region_by_platform (platform_of first) = Inr region"
    and "fst (get_match_preview ev (session ev) (match_url ev region match_id) p) = Inl e"
  shows "\<exists>e'. get_match_preview_list ev (first # others) db p = Inl e'"
proof -
  let ?ts = "map (\<lambda>match_id. fst (get_match_preview ev (session ev) (match_url ev region match_id) p))
               (first # others)"
  from assms(1,3) have "Inl e \<in> set ?ts" by force
  from gather_Inl[OF this] obtain e' where "gather ?ts = Inl e'" ..
  with assms(2) show ?thesis
    by (simp add: get_match_preview_list_def)
qed

section \<open>The example data, evaluated\<close>

lemma round_div2_examples:
  "round_div2 6 30 = Inr (PyFloat (Finite (to_double (1 / 5))))"
  "round_div2 12 60 = Inr (PyFloat (Finite (to_double (1 / 5))))"
  "round_div2 2 30 = Inr (PyFloat (Finite (to_double (7 / 100))))"
  "round_div2 4 60 = Inr (PyFloat (Finite (to_double (7 / 100))))"
  "round_div2 9 30 = Inr (PyFloat (Finite (to_double (3 / 10))))"
  "round_div2 18 60 = Inr (PyFloat (Finite (to_double (3 / 10))))"
  "round_div2 180 30 = Inr (PyFloat (Finite 6))"
  "round_div2 360 60 = Inr (PyFloat (Finite 6))"
  "round_div2 15 30 = Inr (PyFloat (Finite (1 / 2)))"
  "round_div2 30 60 = Inr (PyFloat (Finite (1 / 2)))"
  by (simp_all add: float_defs)

lemma round_div2_examples_per_match:
  "round_div2 6 1 = Inr (PyFloat (Finite 6))"
  "round_div2 12 2 = Inr (PyFloat (Finite 6))"
  "round_div2 2 1 = Inr (PyFloat (Finite 2))"
  "round_div2 4 2 = Inr (PyFloat (Finite 2))"
  "round_div2 9 1 = Inr (PyFloat (Finite 9))"
  "round_div2 18 2 = Inr (PyFloat (Finite 9))"
  "round_div2 180 1 = Inr (PyFloat (Finite 180))"
  "round_div2 360 2 = Inr (PyFloat (Finite 180))"
  "round_div2 15 1 = Inr (PyFloat (Finite 15))"
  "round_div2 30 2 = Inr (PyFloat (Finite 15))"
  "round_div2 15 2 = Inr (PyFloat (Finite (15 / 2)))"
  "round_div2 30 4 = Inr (PyFloat (Finite (15 / 2)))"
  "round_div2 2 2 = Inr (PyFloat (Finite 1))"
  by (simp_all add: float_defs)

lemma float_examples:
  "truediv 1800 60 = Inr (Finite 30)"
  "py_int (py_round (Finite 30) 0) = Inr 30"
  "truediv 1 1 = Inr (Finite 1)"
  "truediv 1 2 = Inr (Finite (1 / 2))"
  "times_100 (Finite 1) = Finite 100"
  "times_100 (Finite (1 / 2)) = Finite 50"
  "py_int (Finite 100) = Inr 100"
  "py_int (Finite 50) = Inr 50"
  "py_round (Finite 50) 2 = Finite 50"
  by (simp_all add: float_defs)

lemma kda_15_2: "round_div2 15 2 = Inr (PyFloat (Finite (15 / 2)))"
  by (simp add: float_defs)

lemma set_kda_ex:
  "kills p = 6 \<Longrightarrow> assists p = 9 \<Longrightarrow> deaths p = 2
   \<Longrightarrow> set_kda p = Inr (p\<lparr>kda := Some (PyFloat (Finite (15 / 2)))\<rparr>)"
  using kda_15_2 by (simp add: set_kda_def round_div2_def and_then_def split: sum.splits)

lemma date_ex:
  "get_date_by_timestamp ex_env 1637712000000 = Inr ''2021-11-24''"
  "get_date_by_timestamp ex_env 1637625600000 = Inr ''2021-11-23''"
  by (simp_all add: get_date_by_timestamp_def ex_env_def float_defs)

lemma match_preview_ex: "match_preview ex_env ''player-1'' ex_match 0 = (Inr ex_preview, 1)"
  apply (simp add: match_preview_def annotate_player_def ex_match_def ex_env_def py_index_def
      set_kda_ex primary_perk_def set_spells_def get_rune_primary_def rune_icon_def ex_player_def)
  apply (simp add: finish_preview_def secondary_style_def py_index_def py_store_def
      date_ex[unfolded ex_env_def] Let_def)
  apply (simp add: ex_player_def ex_other_def ex_preview_def ex_preview_of_def ex_summary_def ex_match_def
       get_summoner_spell_def get_rune_secondary_def get_match_mode_def patch_of_def item_list_def py_index_def)
  done

lemma match_preview_older: "match_preview ex_env ''player-1'' ex_match_older 0 = (Inr ex_preview_older, 1)"
  apply (simp add: match_preview_def annotate_player_def ex_match_older_def ex_match_def ex_env_def py_index_def
      set_kda_ex primary_perk_def set_spells_def get_rune_primary_def rune_icon_def ex_player_def)
  apply (simp add: finish_preview_def secondary_style_def py_index_def py_store_def
      date_ex[unfolded ex_env_def] Let_def)
  apply (simp add: ex_player_def ex_other_def ex_preview_older_def ex_preview_of_def ex_summary_def ex_match_def ex_match_older_def
       get_summoner_spell_def get_rune_secondary_def get_match_mode_def patch_of_def item_list_def py_index_def)
  done

section \<open>The example data through the pipeline\<close>

lemmas example_floats = round_div2_examples round_div2_examples_per_match float_examples

lemma lower_TOP: "lower ''TOP'' = ''top''"
  by (simp add: lower_def lower_char_def)

lemma ex_preview_fields:
  "player_summary ex_preview = Some (ex_summary\<lparr>items := Some [10, 11, 12, 16, 13, 14, 15]\<rparr>)"
  "player_summary ex_preview_older = Some (ex_summary\<lparr>win := False, items := Some [10, 11, 12, 16, 13, 14, 15]\<rparr>)"
  "gameMode (info ex_preview) = ''CLASSIC''"
  "gameMode (info ex_preview_older) = ''CLASSIC''"
  "gameDuration (info ex_preview) = 1800"
  "gameDuration (info ex_preview_older) = 1800"
  "gameCreation (info ex_preview) = 1637712000000"
  "gameCreation (info ex_preview_older) = 1637625600000"
  by (simp_all add: ex_preview_def ex_preview_older_def ex_preview_of_def ex_match_def ex_match_older_def)

lemma ex_summary_fields:
  "teamPosition ex_summary = ''TOP''" "win ex_summary" "kills ex_summary = 6"
  "deaths ex_summary = 2" "assists ex_summary = 9" "championName ex_summary = ''Garen''"
  "totalMinionsKilled ex_summary = 170" "neutralMinionsKilled ex_summary = 10" "visionScore ex_summary = 15" "goldEarned ex_summary = 12000"
  "totalDamageDealtToChampions ex_summary = 20000"
  by (simp_all add: ex_summary_def ex_player_def)

lemma fold_match_ex1: "fold_match ex_env ex_db ex_preview = Inr ex_db1"
  by (simp add: fold_match_def ex_preview_fields ex_summary_fields lower_TOP
      role_add1_def role_win_rate_def dict_get_def ex_db_def ex_role_def
      add_database_ranked_stats_def duration_minutes_def update_stat_def ex_stat_def
      add_database_champion_stats_def new_champion_def kda_value_def date_ex
      example_floats minions_of_def ex_db1_def ex_stats_after_def ex_champion1_def)


lemma ex_urls:
  "match_url ex_env ''EUROPE'' ''EUW1_1'' = ''https://EUROPE.api.riotgames.com/lol/match/v5/matches/EUW1_1?api_key=KEY''"
  "match_url ex_env ''EUROPE'' ''EUW1_2'' = ''https://EUROPE.api.riotgames.com/lol/match/v5/matches/EUW1_2?api_key=KEY''"
  "match_url ex_env ''EUROPE'' ''EUW1_3'' = ''https://EUROPE.api.riotgames.com/lol/match/v5/matches/EUW1_3?api_key=KEY''"
  "match_url ex_env ''EUROPE'' ''EUW1_4'' = ''https://EUROPE.api.riotgames.com/lol/match/v5/matches/EUW1_4?api_key=KEY''"
  "match_url ex_env ''EUROPE'' ''EUW1_5'' = ''https://EUROPE.api.riotgames.com/lol/match/v5/matches/EUW1_5?api_key=KEY''"
  by (simp_all add: match_url_def ex_env_def)

lemma ex_region:
  "get_region_by_platform (platform_of ''EUW1_1'') = Inr ''EUROPE''"
  "get_region_by_platform (platform_of ''EUW1_4'') = Inr ''EUROPE''"
  "get_region_by_platform (platform_of ''EUW1_5'') = Inr ''EUROPE''"
  by (simp_all add: get_region_by_platform_def platform_of_def)

lemma ex_fetch_1:
  "get_match_preview ex_env ex_session (match_url ex_env ''EUROPE'' ''EUW1_1'') ''player-1''
     = (Inr ex_preview, \<lparr>sleeps = [], perks_requests = 1\<rparr>)"
  by (simp add: ex_urls get_match_preview_def ex_session_def max_attempts_def ok_def match_preview_ex)

lemma ex_fetch_2:
  "get_match_preview ex_env ex_session (match_url ex_env ''EUROPE'' ''EUW1_2'') ''player-1''
     = (Inr ex_preview_older, \<lparr>sleeps = [1, 1], perks_requests = 1\<rparr>)"
  by (simp add: ex_urls get_match_preview_def ex_session_def max_attempts_def ok_def
      rate_limited_def match_preview_older)

lemma ex_fetch_4:
  "get_match_preview ex_env ex_session (match_url ex_env ''EUROPE'' ''EUW1_4'') ''player-1''
     = (Inr ex_match_custom, \<lparr>sleeps = [], perks_requests = 0\<rparr>)"
  by (simp add: ex_urls get_match_preview_def ex_session_def max_attempts_def ok_def
      match_preview_def ex_match_custom_def ex_match_def)

lemma ex_fetch_5:
  "get_match_preview ex_env ex_session (match_url ex_env ''EUROPE'' ''EUW1_5'') ''player-1''
     = (Inl MaxedOutAttempts, \<lparr>sleeps = [1, 1, 1], perks_requests = 0\<rparr>)"
  by (simp add: ex_urls get_match_preview_def ex_session_def max_attempts_def rate_limited_def)

lemma ex_session_env: "session ex_env = ex_session"
  by (simp add: ex_env_def)

text \<open>
  Claim C6 (a match of queue 0, 2000, 2010 or 2020 is filtered out of the pipeline and
  does not reach the fold or the output): the code skips the enrichment of such a match
  but still returns it, so it is in the list the fold loop reads, and the loop raises
  \<^verbatim>\<open>KeyError\<close> on its missing player summary. Here a batch of a ranked match and a
  custom match fails as a whole.
\<close>

theorem custom_match_reaches_fold:
  "get_match_preview ex_env ex_session (match_url ex_env ''EUROPE'' ''EUW1_4'') ''player-1''
     = (Inr ex_match_custom, \<lparr>sleeps = [], perks_requests = 0\<rparr>)
   \<and> queueId (info ex_match_custom) = 0
   \<and> get_match_preview_list ex_env [''EUW1_1'', ''EUW1_4''] ex_db ''player-1'' = Inl KeyError"
  by (simp add: ex_fetch_4 get_match_preview_list_def ex_region ex_session_env ex_fetch_1
      fold_match_ex1)
     (simp add: fold_match_def ex_match_custom_def ex_match_def)

text \<open>
  Claim C3 as stated (three rate-limit responses are fatal to that fetch only, not to the
  other fetches of the batch) fails: in a batch of two fetches, the second returns its
  preview, the first gets three rate-limit responses, and the batch returns nothing but
  the exception.
\<close>

theorem batch_fails_with_one_fetch:
  "fst (get_match_preview ex_env (session ex_env) (match_url ex_env ''EUROPE'' ''EUW1_1'') ''player-1'')
     = Inr ex_preview
   \<and> get_match_preview_list ex_env [''EUW1_5'', ''EUW1_1''] ex_db ''player-1''
       = Inl MaxedOutAttempts"
  by (simp add: get_match_preview_list_def ex_region ex_session_env ex_fetch_1 ex_fetch_5)



text \<open>
  Claim C3, as the code has it. In both fetch loops: after the responses 429, 429, 200
  the fetch has slept the two \<^verbatim>\<open>Retry-After\<close> durations and returns what the 200
  response gives; after three 429 responses it has slept three times and raises
  \<^verbatim>\<open>Exception("Failed: Maxed out attempts")\<close>; no fetch makes more than three requests.
  A fetch that raises makes the whole batch raise: \<^verbatim>\<open>get_match_preview_list\<close> returns
  no statistics and no preview.
\<close>

theorem retry_on_rate_limit:
  "(sess url = r1 # r2 # r3 # rs \<and> rate_limit_response r1 s1 \<and> rate_limit_response r2 s2
      \<and> status r3 = 200
    \<longrightarrow> get_match_preview ev sess url p
          = (fst (match_preview ev p (body r3) 0),
             \<lparr>sleeps = [s1, s2], perks_requests = snd (match_preview ev p (body r3) 0)\<rparr>))
   \<and> (sess' url' = q1 # q2 # q3 # qs \<and> rate_limit_response q1 t1 \<and> rate_limit_response q2 t2
        \<and> rate_limit_response q3 t3
      \<longrightarrow> get_match_preview ev sess' url' p
            = (Inl MaxedOutAttempts, \<lparr>sleeps = [t1, t2, t3], perks_requests = 0\<rparr>))
   \<and> (lsess lurl = l1 # l2 # l3 # ls \<and> rate_limit_response l1 u1 \<and> rate_limit_response l2 u2
        \<and> status l3 = 200
      \<longrightarrow> get_leagues_json lsess lurl = (Inr (body l3), [u1, u2]))
   \<and> (lsess' lurl' = k1 # k2 # k3 # ks \<and> rate_limit_response k1 v1 \<and> rate_limit_response k2 v2
        \<and> rate_limit_response k3 v3
      \<longrightarrow> get_leagues_json lsess' lurl' = (Inl MaxedOutAttempts, [v1, v2, v3]))
   \<and> get_match_preview ev sess0 url0 p = get_match_preview ev (\<lambda>u. take 3 (sess0 u)) url0 p
   \<and> get_leagues_json lsess0 lurl0 = get_leagues_json (\<lambda>u. take 3 (lsess0 u)) lurl0
   \<and> (match_id \<in> set (first # others)
        \<and> get_region_by_platform (platform_of first) = Inr region
        \<and> fst (get_match_preview ev (session ev) (match_url ev region match_id) p) = Inl e
      \<longrightarrow> (\<exists>e'. get_match_preview_list ev (first # others) db p = Inl e'))"
proof (intro conjI impI)
  assume "sess url = r1 # r2 # r3 # rs \<and> rate_limit_response r1 s1 \<and> rate_limit_response r2 s2
      \<and> status r3 = 200"
  then show "get_match_preview ev sess url p
          = (fst (match_preview ev p (body r3) 0),
             \<lparr>sleeps = [s1, s2], perks_requests = snd (match_preview ev p (body r3) 0)\<rparr>)"
    by (simp add: get_match_preview_def rate_limit_response_def max_attempts_def split: prod.splits)
next
  assume "sess' url' = q1 # q2 # q3 # qs \<and> rate_limit_response q1 t1 \<and> rate_limit_response q2 t2
        \<and> rate_limit_response q3 t3"
  then show "get_match_preview ev sess' url' p
            = (Inl MaxedOutAttempts, \<lparr>sleeps = [t1, t2, t3], perks_requests = 0\<rparr>)"
    by (cases qs) (simp_all add: get_match_preview_def rate_limit_response_def max_attempts_def)
next
  assume "lsess lurl = l1 # l2 # l3 # ls \<and> rate_limit_response l1 u1 \<and> rate_limit_response l2 u2
        \<and> status l3 = 200"
  then show "get_leagues_json lsess lurl = (Inr (body l3), [u1, u2])"
    by (simp add: get_leagues_json_def rate_limit_response_def max_attempts_def)
next
  assume "lsess' lurl' = k1 # k2 # k3 # ks \<and> rate_limit_response k1 v1 \<and> rate_limit_response k2 v2
        \<and> rate_limit_response k3 v3"
  then show "get_leagues_json lsess' lurl' = (Inl MaxedOutAttempts, [v1, v2, v3])"
    by (cases ks) (simp_all add: get_leagues_json_def rate_limit_response_def max_attempts_def)
next
  show "get_match_preview ev sess0 url0 p = get_match_preview ev (\<lambda>u. take 3 (sess0 u)) url0 p"
    using loop_bound[of ev p 0 "sess0 url0"]
    by (simp add: get_match_preview_def max_attempts_def)
next
  show "get_leagues_json lsess0 lurl0 = get_leagues_json (\<lambda>u. take 3 (lsess0 u)) lurl0"
    using leagues_loop_bound[of 0 "lsess0 lurl0" "[]"]
    by (simp add: get_leagues_json_def max_attempts_def)
next
  assume "match_id \<in> set (first # others)
        \<and> get_region_by_platform (platform_of first) = Inr region
        \<and> fst (get_match_preview ev (session ev) (match_url ev region match_id) p) = Inl e"
  then show "\<exists>e'. get_match_preview_list ev (first # others) db p = Inl e'"
    using batch_fails by blast
qed

theorem retry_on_rate_limit_witness:
  "ex_session (match_url ex_env ''EUROPE'' ''EUW1_2'')
     = [rate_limited 1, rate_limited 1, ok ex_match_older]
   \<and> ex_session (match_url ex_env ''EUROPE'' ''EUW1_5'')
     = [rate_limited 1, rate_limited 1, rate_limited 1, ok ex_match]
   \<and> rate_limit_response (rate_limited 1) 1 \<and> status (ok ex_match_older) = 200
   \<and> get_match_preview ex_env ex_session (match_url ex_env ''EUROPE'' ''EUW1_2'') ''player-1''
       = (Inr ex_preview_older, \<lparr>sleeps = [1, 1], perks_requests = 1\<rparr>)
   \<and> get_match_preview ex_env ex_session (match_url ex_env ''EUROPE'' ''EUW1_5'') ''player-1''
       = (Inl MaxedOutAttempts, \<lparr>sleeps = [1, 1, 1], perks_requests = 0\<rparr>)
   \<and> get_leagues_json ex_session (match_url ex_env ''EUROPE'' ''EUW1_2'') = (Inr ex_match_older, [1, 1])
   \<and> get_leagues_json ex_session (match_url ex_env ''EUROPE'' ''EUW1_5'')
       = (Inl MaxedOutAttempts, [1, 1, 1])
   \<and> ''EUW1_5'' \<in> set [''EUW1_5'', ''EUW1_1'']
   \<and> get_region_by_platform (platform_of ''EUW1_5'') = Inr ''EUROPE''
   \<and> fst (get_match_preview ex_env (session ex_env) (match_url ex_env ''EUROPE'' ''EUW1_5'') ''player-1'')
       = Inl MaxedOutAttempts
   \<and> (\<exists>e'. get_match_preview_list ex_env [''EUW1_5'', ''EUW1_1''] ex_db ''player-1'' = Inl e')"
proof -
  have s2: "ex_session (match_url ex_env ''EUROPE'' ''EUW1_2'')
              = rate_limited 1 # rate_limited 1 # ok ex_match_older # []"
    and s5: "ex_session (match_url ex_env ''EUROPE'' ''EUW1_5'')
              = rate_limited 1 # rate_limited 1 # rate_limited 1 # [ok ex_match]"
    by (simp_all add: ex_urls ex_session_def)
  have r: "rate_limit_response (rate_limited 1) 1" and k: "status (ok ex_match_older) = 200"
    by (simp_all add: rate_limit_response_def rate_limited_def ok_def)
  have b: "''EUW1_5'' \<in> set (''EUW1_5'' # [''EUW1_1''])"
    and f: "fst (get_match_preview ex_env (session ex_env) (match_url ex_env ''EUROPE'' ''EUW1_5'')
                   ''player-1'') = Inl MaxedOutAttempts"
    by (simp_all add: ex_session_env ex_fetch_5)
  note t = retry_on_rate_limit[where ev = ex_env and p = "''player-1''"
      and sess = ex_session and url = "match_url ex_env ''EUROPE'' ''EUW1_2''"
      and ?r1.0 = "rate_limited 1" and ?r2.0 = "rate_limited 1" and ?r3.0 = "ok ex_match_older"
      and rs = "[]" and ?s1.0 = 1 and ?s2.0 = 1
      and sess' = ex_session and url' = "match_url ex_env ''EUROPE'' ''EUW1_5''"
      and ?q1.0 = "rate_limited 1" and ?q2.0 = "rate_limited 1" and ?q3.0 = "rate_limited 1"
      and qs = "[ok ex_match]" and ?t1.0 = 1 and ?t2.0 = 1 and ?t3.0 = 1
      and lsess = ex_session and lurl = "match_url ex_env ''EUROPE'' ''EUW1_2''"
      and ?l1.0 = "rate_limited 1" and ?l2.0 = "rate_limited 1" and ?l3.0 = "ok ex_match_older"
      and ls = "[]" and ?u1.0 = 1 and ?u2.0 = 1
      and lsess' = ex_session and lurl' = "match_url ex_env ''EUROPE'' ''EUW1_5''"
      and ?k1.0 = "rate_limited 1" and ?k2.0 = "rate_limited 1" and ?k3.0 = "rate_limited 1"
      and ks = "[ok ex_match]" and ?v1.0 = 1 and ?v2.0 = 1 and ?v3.0 = 1
      and ?sess0.0 = ex_session and ?url0.0 = "match_url ex_env ''EUROPE'' ''EUW1_5''"
      and ?lsess0.0 = ex_session and ?lurl0.0 = "match_url ex_env ''EUROPE'' ''EUW1_5''"
      and match_id = "''EUW1_5''" and first = "''EUW1_5''" and others = "[''EUW1_1'']"
      and region = "''EUROPE''" and e = MaxedOutAttempts and db = ex_db]
  from t s2 s5 r k b f ex_region(3) show ?thesis
    by (simp add: ok_def match_preview_older)
qed

section \<open>Matches the loop does not fold\<close>

lemma lower_empty_iff: "lower s = [] \<longleftrightarrow> s = []"
  by (simp add: lower_def)



lemma fold_match_uncounted:
  "gameMode (info m) \<noteq> ''CLASSIC'' \<or> (\<exists>ps. player_summary m = Some ps \<and> teamPosition ps = '''')
   \<Longrightarrow> fold_match ev db m = (if player_summary m = None then Inl KeyError else Inr db)"
  by (cases "player_summary m") (auto simp: fold_match_def lower_empty_iff)

lemma fold_matches_uncounted:
  "\<forall>m \<in> set ms. gameMode (info m) \<noteq> ''CLASSIC''
        \<or> (\<exists>ps. player_summary m = Some ps \<and> teamPosition ps = '''')
   \<Longrightarrow> fold_matches ev db ms
       = (if \<exists>m \<in> set ms. player_summary m = None then Inl KeyError else Inr db)"
proof (induction ms)
  case Nil
  then show ?case by simp
next
  case (Cons m ms)
  from Cons.prems have
    m: "gameMode (info m) \<noteq> ''CLASSIC'' \<or> (\<exists>ps. player_summary m = Some ps \<and> teamPosition ps = '''')"
    and ms: "\<forall>m \<in> set ms. gameMode (info m) \<noteq> ''CLASSIC''
        \<or> (\<exists>ps. player_summary m = Some ps \<and> teamPosition ps = '''')"
    by simp_all
  show ?case
  proof (cases "player_summary m")
    case None
    with fold_match_uncounted[OF m, of ev db] show ?thesis by simp
  next
    case (Some ps)
    with fold_match_uncounted[OF m, of ev db] Cons.IH[OF ms] show ?thesis by simp
  qed
qed

text \<open>
  Claim C5: a fetched match whose game mode is not \<^verbatim>\<open>CLASSIC\<close>, or whose player has an
  empty position, changes nothing in the statistics. The turn of the loop for such a match
  has two outcomes only: it returns the record it was given, with the same counters,
  totals, role buckets and champions, or, when the match carries no player summary (a
  match \<^verbatim>\<open>get_match_preview\<close> returned without enriching it), it raises \<^verbatim>\<open>KeyError\<close> at
  the read of the position, before any statement that writes to the record. So every
  record the turn returns is the record it was given; and the same holds of the whole loop
  over a list of such matches.
\<close>

theorem uncounted_match_leaves_stats:
  "(gameMode (info m) \<noteq> ''CLASSIC'' \<or> (\<exists>ps. player_summary m = Some ps \<and> teamPosition ps = '''')
      \<longrightarrow> fold_match ev db m = (if player_summary m = None then Inl KeyError else Inr db)
          \<and> (\<forall>db1. fold_match ev db m = Inr db1 \<longrightarrow> db1 = db))
   \<and> ((\<forall>m \<in> set ms. gameMode (info m) \<noteq> ''CLASSIC''
            \<or> (\<exists>ps. player_summary m = Some ps \<and> teamPosition ps = ''''))
      \<longrightarrow> fold_matches ev db' ms
            = (if \<exists>m \<in> set ms. player_summary m = None then Inl KeyError else Inr db')
          \<and> (\<forall>db1. fold_matches ev db' ms = Inr db1 \<longrightarrow> db1 = db'))"
proof (intro conjI impI allI)
  assume a: "gameMode (info m) \<noteq> ''CLASSIC''
      \<or> (\<exists>ps. player_summary m = Some ps \<and> teamPosition ps = '''')"
  show e: "fold_match ev db m = (if player_summary m = None then Inl KeyError else Inr db)"
    by (rule fold_match_uncounted[OF a])
  show "db1 = db" if "fold_match ev db m = Inr db1" for db1
    using that e by (simp split: if_splits)
next
  assume a: "\<forall>m \<in> set ms. gameMode (info m) \<noteq> ''CLASSIC''
            \<or> (\<exists>ps. player_summary m = Some ps \<and> teamPosition ps = '''')"
  show e: "fold_matches ev db' ms
            = (if \<exists>m \<in> set ms. player_summary m = None then Inl KeyError else Inr db')"
    by (rule fold_matches_uncounted[OF a])
  show "db1 = db'" if "fold_matches ev db' ms = Inr db1" for db1
    using that e by (simp split: if_splits)
qed

lemma ex_uncounted_fields:
  "player_summary ex_preview_aram = Some (ex_summary\<lparr>items := Some [10, 11, 12, 16, 13, 14, 15]\<rparr>)"
  "gameMode (info ex_preview_aram) = ''ARAM''"
  "player_summary ex_preview_remake
     = Some (ex_summary\<lparr>teamPosition := [], items := Some [10, 11, 12, 16, 13, 14, 15]\<rparr>)"
  "gameMode (info ex_preview_remake) = ''CLASSIC''"
  by (simp_all add: ex_preview_aram_def ex_preview_remake_def ex_preview_def ex_preview_of_def
      ex_match_aram_def ex_match_def)

lemma ex_tutorial_fields:
  "player_summary ex_match_tutorial = None"
  "gameMode (info ex_match_tutorial) = ''TUTORIAL_MODULE_1''"
  "queueId (info ex_match_tutorial) = 2000"
  by (simp_all add: ex_match_tutorial_def ex_match_def)

text \<open>The example: a match of the mode \<^verbatim>\<open>ARAM\<close>, a remade match without a position, and
  a tutorial match without a player summary.\<close>

theorem uncounted_match_leaves_stats_witness:
  "gameMode (info ex_preview_aram) \<noteq> ''CLASSIC''
   \<and> fold_match ex_env ex_db1 ex_preview_aram = Inr ex_db1
   \<and> (\<exists>ps. player_summary ex_preview_remake = Some ps \<and> teamPosition ps = '''')
   \<and> fold_match ex_env ex_db1 ex_preview_remake = Inr ex_db1
   \<and> fold_matches ex_env ex_db1 [ex_preview_aram, ex_preview_remake] = Inr ex_db1
   \<and> gameMode (info ex_match_tutorial) \<noteq> ''CLASSIC''
   \<and> player_summary ex_match_tutorial = None
   \<and> fold_match ex_env ex_db1 ex_match_tutorial = Inl KeyError
   \<and> fold_matches ex_env ex_db1 [ex_preview_aram, ex_match_tutorial] = Inl KeyError"
proof -
  have a: "gameMode (info ex_preview_aram) \<noteq> ''CLASSIC''
      \<or> (\<exists>ps. player_summary ex_preview_aram = Some ps \<and> teamPosition ps = '''')"
    by (simp add: ex_uncounted_fields)
  have r: "gameMode (info ex_preview_remake) \<noteq> ''CLASSIC''
      \<or> (\<exists>ps. player_summary ex_preview_remake = Some ps \<and> teamPosition ps = '''')"
    by (simp add: ex_uncounted_fields)
  have u: "gameMode (info ex_match_tutorial) \<noteq> ''CLASSIC''
      \<or> (\<exists>ps. player_summary ex_match_tutorial = Some ps \<and> teamPosition ps = '''')"
    by (simp add: ex_tutorial_fields)
  have b: "\<forall>m \<in> set [ex_preview_aram, ex_preview_remake]. gameMode (info m) \<noteq> ''CLASSIC''
        \<or> (\<exists>ps. player_summary m = Some ps \<and> teamPosition ps = '''')"
    using a r by simp
  have c: "\<forall>m \<in> set [ex_preview_aram, ex_match_tutorial]. gameMode (info m) \<noteq> ''CLASSIC''
        \<or> (\<exists>ps. player_summary m = Some ps \<and> teamPosition ps = '''')"
    using a u by simp
  note t1 = uncounted_match_leaves_stats[of ex_preview_aram ex_env ex_db1
      "[ex_preview_aram, ex_preview_remake]" ex_db1]
  note t2 = uncounted_match_leaves_stats[of ex_preview_remake ex_env ex_db1
      "[ex_preview_aram, ex_match_tutorial]" ex_db1]
  note t3 = uncounted_match_leaves_stats[of ex_match_tutorial ex_env ex_db1 "[]" ex_db1]
  from t1 a have c1: "fold_match ex_env ex_db1 ex_preview_aram
      = (if player_summary ex_preview_aram = None then Inl KeyError else Inr ex_db1)"
    by blast
  from t2 r have c2: "fold_match ex_env ex_db1 ex_preview_remake
      = (if player_summary ex_preview_remake = None then Inl KeyError else Inr ex_db1)"
    by blast
  from t3 u have c3: "fold_match ex_env ex_db1 ex_match_tutorial
      = (if player_summary ex_match_tutorial = None then Inl KeyError else Inr ex_db1)"
    by blast
  from t1 b have c4: "fold_matches ex_env ex_db1 [ex_preview_aram, ex_preview_remake]
      = (if \<exists>m \<in> set [ex_preview_aram, ex_preview_remake]. player_summary m = None
         then Inl KeyError else Inr ex_db1)"
    by blast
  from t2 c have c5: "fold_matches ex_env ex_db1 [ex_preview_aram, ex_match_tutorial]
      = (if \<exists>m \<in> set [ex_preview_aram, ex_match_tutorial]. player_summary m = None
         then Inl KeyError else Inr ex_db1)"
    by blast
  have c1': "fold_match ex_env ex_db1 ex_preview_aram = Inr ex_db1"
    using c1 by (simp add: ex_uncounted_fields)
  have c2': "fold_match ex_env ex_db1 ex_preview_remake = Inr ex_db1"
    using c2 by (simp add: ex_uncounted_fields)
  have c3': "fold_match ex_env ex_db1 ex_match_tutorial = Inl KeyError"
    using c3 by (simp add: ex_tutorial_fields)
  have c4': "fold_matches ex_env ex_db1 [ex_preview_aram, ex_preview_remake] = Inr ex_db1"
    using c4 by (simp add: ex_uncounted_fields)
  have c5': "fold_matches ex_env ex_db1 [ex_preview_aram, ex_match_tutorial] = Inl KeyError"
    using c5 by (simp add: ex_uncounted_fields ex_tutorial_fields)
  show ?thesis
    using c1' c2' c3' c4' c5' by (simp add: ex_uncounted_fields ex_tutorial_fields)
qed

section \<open>The KDA\<close>






section \<open>The rollup of a champion\<close>




section \<open>Totals and derived rates\<close>






end
